theory Spec2Isabelle
  imports Complex_Main
begin

section \<open>Boundary validation (gui_app.py, lines 78-270)\<close>

text \<open>
  The validators call shapely, geopandas and requests. These libraries are outside the
  repository, so their operations are fields of an environment record. Every operation
  that can raise returns a sum: \<open>Inl e\<close> is a raised exception with message \<open>e\<close>
  (what \<open>str(e)\<close> yields), \<open>Inr v\<close> a normal return. \<open>'g\<close> is the type of
  shapely geometries, \<open>'j\<close> the type of GeoJSON geometry objects. Coordinates are
  modelled as exact reals.
\<close>

type_synonym exn = string

type_synonym ring = "(real \<times> real) list"

record ('g, 'j) geolib =
  Point :: "real \<Rightarrow> real \<Rightarrow> exn + 'g"
  box :: "real \<Rightarrow> real \<Rightarrow> real \<Rightarrow> real \<Rightarrow> exn + 'g"
  Polygon :: "ring \<Rightarrow> exn + 'g"
  contains :: "'g \<Rightarrow> 'g \<Rightarrow> exn + bool"
  intersects :: "'g \<Rightarrow> 'g \<Rightarrow> exn + bool"
  shapely_shape :: "'j \<Rightarrow> exn + 'g"
  to_crs :: "'g \<Rightarrow> exn + 'g"
  bounds :: "'g \<Rightarrow> exn + (real \<times> real \<times> real \<times> real)"
  format_0f :: "real \<Rightarrow> string"

text \<open>
  The outcome of \<open>requests.get(url, timeout=5)\<close> followed by \<open>response.json()\<close>:
  either something raised, or there is a status code and a decoded body. The body's
  \<open>results\<close> key may be missing; each result carries \<open>geometry.rings\<close> or not.
\<close>

datatype fetch = RequestRaised exn | Response nat "ring list option list option"

text \<open>The emoji of the messages, as their UTF-8 bytes.\<close>

definition warning_sign :: string where
  "warning_sign = [CHR 0xE2, CHR 0x9A, CHR 0xA0, CHR 0xEF, CHR 0xB8, CHR 0x8F]"

definition check_mark :: string where
  "check_mark = [CHR 0xE2, CHR 0x9C, CHR 0x85]"

definition cross_mark :: string where
  "cross_mark = [CHR 0xE2, CHR 0x9D, CHR 0x8C]"

definition simplified_coords :: ring where
  "simplified_coords =
    [(2485000, 1075000), (2485000, 1110000), (2490000, 1145000), (2495000, 1185000),
     (2510000, 1230000), (2525000, 1265000), (2570000, 1295000), (2630000, 1296000),
     (2720000, 1295000), (2795000, 1280000), (2834000, 1255000), (2830000, 1220000),
     (2815000, 1185000), (2785000, 1150000), (2750000, 1110000), (2715000, 1085000),
     (2680000, 1080000), (2630000, 1085000), (2580000, 1095000), (2530000, 1085000),
     (2490000, 1078000), (2485000, 1075000)]"

text \<open>
  The loop over \<open>data['results']\<close>: the first result that has \<open>geometry.rings\<close>
  with at least one ring yields \<open>rings[0]\<close>.
\<close>

fun first_rings :: "ring list option list \<Rightarrow> ring option" where
  "first_rings [] = None"
| "first_rings (None # rs) = first_rings rs"
| "first_rings (Some [] # rs) = first_rings rs"
| "first_rings (Some (r # _) # rs) = Some r"

definition get_swiss_boundary_polygon :: "('g, 'j) geolib \<Rightarrow> fetch \<Rightarrow> 'g option" where
  "get_swiss_boundary_polygon lib f =
    (case f of
       RequestRaised e \<Rightarrow> None
     | Response status results \<Rightarrow>
        (case (if status = 200
               then first_rings (case results of None \<Rightarrow> [] | Some rs \<Rightarrow> rs)
               else None) of
           Some r \<Rightarrow> (case Polygon lib r of Inl e \<Rightarrow> None | Inr p \<Rightarrow> Some p)
         | None \<Rightarrow>
            (case Polygon lib simplified_coords of Inl e \<Rightarrow> None | Inr p \<Rightarrow> Some p)))"

definition SWISS_MIN_E :: real where "SWISS_MIN_E = 2485000"
definition SWISS_MAX_E :: real where "SWISS_MAX_E = 2834000"
definition SWISS_MIN_N :: real where "SWISS_MIN_N = 1075000"
definition SWISS_MAX_N :: real where "SWISS_MAX_N = 1296000"

text \<open>
  \<open>roi_size\<close> is \<open>None\<close> or an integer; Python's \<open>if roi_size:\<close> holds for a
  non-zero integer only.
\<close>

fun truthy :: "int option \<Rightarrow> bool" where
  "truthy None = False"
| "truthy (Some n) = (n \<noteq> 0)"

definition half_of :: "int option \<Rightarrow> real" where
  "half_of roi_size = (case roi_size of None \<Rightarrow> 0 | Some n \<Rightarrow> real_of_int n / 2)"

definition msg_point_appears_outside :: "('g, 'j) geolib \<Rightarrow> real \<Rightarrow> real \<Rightarrow> string" where
  "msg_point_appears_outside lib x y =
    warning_sign @ '' Point ('' @ format_0f lib x @ '', '' @ format_0f lib y
      @ '') appears outside Swiss boundaries''"

definition msg_point_outside :: "('g, 'j) geolib \<Rightarrow> real \<Rightarrow> real \<Rightarrow> string" where
  "msg_point_outside lib x y =
    warning_sign @ '' Point ('' @ format_0f lib x @ '', '' @ format_0f lib y
      @ '') is outside Switzerland''"

definition msg_roi_extends_boundaries :: string where
  "msg_roi_extends_boundaries = warning_sign
    @ '' ROI extends outside Swiss boundaries. Reduce ROI size or move center point.''"

definition msg_roi_extends_switzerland :: string where
  "msg_roi_extends_switzerland = warning_sign
    @ '' ROI extends outside Switzerland. Reduce ROI size or move center point.''"

definition msg_within_boundaries :: string where
  "msg_within_boundaries = check_mark @ '' Within Swiss boundaries''"

definition msg_within_switzerland :: string where
  "msg_within_switzerland = check_mark @ '' Within Switzerland''"

definition msg_could_not_validate :: string where
  "msg_could_not_validate = warning_sign @ '' Could not validate boundaries''"

text \<open>The body of the \<open>try\<close> block of \<open>check_swiss_boundaries\<close> (lines 161-203).\<close>

definition check_swiss_boundaries_try ::
  "('g, 'j) geolib \<Rightarrow> fetch \<Rightarrow> real \<Rightarrow> real \<Rightarrow> int option \<Rightarrow> exn + (bool \<times> string)" where
  "check_swiss_boundaries_try lib f x y roi_size =
    (case get_swiss_boundary_polygon lib f of
       None \<Rightarrow>
        (if \<not> (SWISS_MIN_E \<le> x \<and> x \<le> SWISS_MAX_E \<and> SWISS_MIN_N \<le> y \<and> y \<le> SWISS_MAX_N)
         then Inr (False, msg_point_appears_outside lib x y)
         else if truthy roi_size
           \<and> \<not> (SWISS_MIN_E \<le> x - half_of roi_size \<and> x + half_of roi_size \<le> SWISS_MAX_E
                \<and> SWISS_MIN_N \<le> y - half_of roi_size \<and> y + half_of roi_size \<le> SWISS_MAX_N)
         then Inr (False, msg_roi_extends_boundaries)
         else Inr (True, msg_within_boundaries))
     | Some swiss_boundary \<Rightarrow>
        (case Point lib x y of
           Inl e \<Rightarrow> Inl e
         | Inr point \<Rightarrow>
            (case contains lib swiss_boundary point of
               Inl e \<Rightarrow> Inl e
             | Inr inside \<Rightarrow>
                if \<not> inside then Inr (False, msg_point_outside lib x y)
                else if truthy roi_size then
                  (case box lib (x - half_of roi_size) (y - half_of roi_size)
                          (x + half_of roi_size) (y + half_of roi_size) of
                     Inl e \<Rightarrow> Inl e
                   | Inr roi_box \<Rightarrow>
                      (case contains lib swiss_boundary roi_box of
                         Inl e \<Rightarrow> Inl e
                       | Inr box_inside \<Rightarrow>
                          if \<not> box_inside then Inr (False, msg_roi_extends_switzerland)
                          else Inr (True, msg_within_switzerland)))
                else Inr (True, msg_within_switzerland))))"

text \<open>
  \<open>check_swiss_boundaries\<close> with its handler (lines 205-207):
  \<^verbatim>\<open>except Exception: return True, "... Could not validate boundaries"\<close>.
\<close>

definition check_swiss_boundaries ::
  "('g, 'j) geolib \<Rightarrow> fetch \<Rightarrow> real \<Rightarrow> real \<Rightarrow> int option \<Rightarrow> bool \<times> string" where
  "check_swiss_boundaries lib f x y roi_size =
    (case check_swiss_boundaries_try lib f x y roi_size of
       Inl e \<Rightarrow> (True, msg_could_not_validate)
     | Inr r \<Rightarrow> r)"

definition msg_drawn_east_west :: string where
  "msg_drawn_east_west = warning_sign
    @ '' Drawn ROI extends outside Swiss boundaries (East-West). Please redraw within Switzerland.''"

definition msg_drawn_north_south :: string where
  "msg_drawn_north_south = warning_sign
    @ '' Drawn ROI extends outside Swiss boundaries (North-South). Please redraw within Switzerland.''"

definition msg_drawn_within_bbox :: string where
  "msg_drawn_within_bbox = check_mark @ '' ROI within Swiss boundaries (bounding box check)''"

definition msg_drawn_crosses :: string where
  "msg_drawn_crosses = warning_sign
    @ '' Drawn ROI crosses Swiss border. Part of the ROI is outside Switzerland. Please redraw within Swiss borders.''"

definition msg_drawn_outside :: string where
  "msg_drawn_outside = warning_sign
    @ '' Drawn ROI is completely outside Switzerland. Please redraw within Swiss borders.''"

definition msg_drawn_within :: string where
  "msg_drawn_within = check_mark @ '' ROI within Switzerland (boundary polygon check)''"

definition msg_validation_error :: "exn \<Rightarrow> string" where
  "msg_validation_error e = cross_mark
    @ '' Could not validate boundaries (error: '' @ e @ ''). Please check your ROI.''"

text \<open>The body of the \<open>try\<close> block of \<open>check_polygon_in_swiss_boundaries\<close> (lines 222-263).\<close>

definition check_polygon_in_swiss_boundaries_try ::
  "('g, 'j) geolib \<Rightarrow> fetch \<Rightarrow> 'j \<Rightarrow> exn + (bool \<times> string)" where
  "check_polygon_in_swiss_boundaries_try lib f geojson_geometry =
    (case shapely_shape lib geojson_geometry of
       Inl e \<Rightarrow> Inl e
     | Inr geom_wgs84 \<Rightarrow>
        (case to_crs lib geom_wgs84 of
           Inl e \<Rightarrow> Inl e
         | Inr geom_lv95 \<Rightarrow>
            (case get_swiss_boundary_polygon lib f of
               None \<Rightarrow>
                (case bounds lib geom_lv95 of
                   Inl e \<Rightarrow> Inl e
                 | Inr (minx, miny, maxx, maxy) \<Rightarrow>
                    if minx < SWISS_MIN_E \<or> maxx > SWISS_MAX_E
                    then Inr (False, msg_drawn_east_west)
                    else if miny < SWISS_MIN_N \<or> maxy > SWISS_MAX_N
                    then Inr (False, msg_drawn_north_south)
                    else Inr (True, msg_drawn_within_bbox))
             | Some swiss_boundary \<Rightarrow>
                (case contains lib swiss_boundary geom_lv95 of
                   Inl e \<Rightarrow> Inl e
                 | Inr inside \<Rightarrow>
                    if \<not> inside then
                      (case intersects lib swiss_boundary geom_lv95 of
                         Inl e \<Rightarrow> Inl e
                       | Inr crossing \<Rightarrow>
                          if crossing then Inr (False, msg_drawn_crosses)
                          else Inr (False, msg_drawn_outside))
                    else Inr (True, msg_drawn_within)))))"

text \<open>
  \<open>check_polygon_in_swiss_boundaries\<close> with its handler (lines 265-270), which
  rejects: \<^verbatim>\<open>return False, f"... Could not validate boundaries (error: {str(e)}). ..."\<close>.
\<close>

definition check_polygon_in_swiss_boundaries ::
  "('g, 'j) geolib \<Rightarrow> fetch \<Rightarrow> 'j \<Rightarrow> bool \<times> string" where
  "check_polygon_in_swiss_boundaries lib f geojson_geometry =
    (case check_polygon_in_swiss_boundaries_try lib f geojson_geometry of
       Inl e \<Rightarrow> (False, msg_validation_error e)
     | Inr r \<Rightarrow> r)"

subsection \<open>Python's rendering of numbers\<close>

text \<open>\<open>str(n)\<close> for an integer: decimal digits, with a minus sign when negative.\<close>

definition digit_char :: "nat \<Rightarrow> char" where
  "digit_char d = char_of (48 + d)"

function str_nat :: "nat \<Rightarrow> string" where
  "str_nat n = (if n < 10 then [digit_char n] else str_nat (n div 10) @ [digit_char (n mod 10)])"
  by pat_completeness auto
termination
  by (relation "measure id") auto

declare str_nat.simps [simp del]

definition str_int :: "int \<Rightarrow> string" where
  "str_int i = (if i < 0 then CHR ''-'' # str_nat (nat (- i)) else str_nat (nat i))"

text \<open>
  \<open>f"{x:.0f}"\<close> rounds to the nearest integer, ties to even, and prints its digits
  (a negative value that rounds to zero prints \<open>-0\<close>).
\<close>

definition round_half_even :: "real \<Rightarrow> int" where
  "round_half_even x =
    (let n = \<lfloor>x\<rfloor>; d = x - of_int n
     in if d < 1 / 2 then n else if 1 / 2 < d then n + 1 else if even n then n else n + 1)"

definition format_0f_exact :: "real \<Rightarrow> string" where
  "format_0f_exact x =
    (if x < 0 \<and> round_half_even x = 0 then ''-0'' else str_int (round_half_even x))"

subsection \<open>An instance of the geometry interface: axis-aligned rectangles\<close>

text \<open>
  Points and axis-aligned rectangles with shapely's meaning of \<open>contains\<close> (no point of
  the argument outside, interiors meet) and \<open>intersects\<close> (a common point). A ring is
  turned into its bounding rectangle. The instance is used to run the validators on
  concrete inputs.
\<close>

datatype rgeom = RPoint real real | RBox real real real real

fun rect_contains :: "rgeom \<Rightarrow> rgeom \<Rightarrow> bool" where
  "rect_contains (RBox a b c d) (RPoint x y) = (a < x \<and> x < c \<and> b < y \<and> y < d)"
| "rect_contains (RBox a b c d) (RBox a' b' c' d') =
     (a \<le> a' \<and> c' \<le> c \<and> b \<le> b' \<and> d' \<le> d \<and> a' < c' \<and> b' < d')"
| "rect_contains (RPoint x y) g = False"

fun rect_intersects :: "rgeom \<Rightarrow> rgeom \<Rightarrow> bool" where
  "rect_intersects (RBox a b c d) (RPoint x y) = (a \<le> x \<and> x \<le> c \<and> b \<le> y \<and> y \<le> d)"
| "rect_intersects (RBox a b c d) (RBox a' b' c' d') =
     (a \<le> c' \<and> a' \<le> c \<and> b \<le> d' \<and> b' \<le> d)"
| "rect_intersects (RPoint x y) g = rect_contains g (RPoint x y)"

fun rect_bounds :: "rgeom \<Rightarrow> real \<times> real \<times> real \<times> real" where
  "rect_bounds (RPoint x y) = (x, y, x, y)"
| "rect_bounds (RBox a b c d) = (a, b, c, d)"

definition ring_box :: "ring \<Rightarrow> exn + rgeom" where
  "ring_box r =
    (if length r < 4 then Inl ''A linearring requires at least 4 coordinates.''
     else Inr (RBox (Min (set (map fst r))) (Min (set (map snd r)))
                    (Max (set (map fst r))) (Max (set (map snd r)))))"

definition rect_lib :: "(rgeom, rgeom) geolib" where
  "rect_lib =
    \<lparr> Point = (\<lambda>x y. Inr (RPoint x y)),
      box = (\<lambda>a b c d. Inr (RBox a b c d)),
      Polygon = ring_box,
      contains = (\<lambda>g h. Inr (rect_contains g h)),
      intersects = (\<lambda>g h. Inr (rect_intersects g h)),
      shapely_shape = Inr,
      to_crs = Inr,
      bounds = (\<lambda>g. Inr (rect_bounds g)),
      format_0f = format_0f_exact \<rparr>"


section \<open>Configuration files (gui_app.py, lines 392-427 and 1369-1425)\<close>

subsection \<open>Python string operations\<close>

text \<open>
  Strings are byte lists. \<open>is_space\<close> is \<open>str.isspace\<close> (equally the regular
  expression class \<open>\s\<close>) on ASCII: space, tab, line feed, vertical tab, form feed,
  carriage return and the four separators 0x1C-0x1F. \<open>lower\<close> is \<open>str.lower\<close> on
  ASCII letters. Whitespace and letters outside ASCII are not modelled.
\<close>

definition is_space :: "char \<Rightarrow> bool" where
  "is_space c = (c \<in> set [CHR 0x20, CHR 0x09, CHR 0x0A, CHR 0x0B, CHR 0x0C, CHR 0x0D,
                           CHR 0x1C, CHR 0x1D, CHR 0x1E, CHR 0x1F])"

definition lstrip :: "string \<Rightarrow> string" where
  "lstrip s = dropWhile is_space s"

definition rstrip :: "string \<Rightarrow> string" where
  "rstrip s = rev (dropWhile is_space (rev s))"

definition strip :: "string \<Rightarrow> string" where
  "strip s = rstrip (lstrip s)"

definition lower_char :: "char \<Rightarrow> char" where
  "lower_char c = (let n = (of_char c :: nat) in if 65 \<le> n \<and> n \<le> 90 then char_of (n + 32) else c)"

definition lower :: "string \<Rightarrow> string" where
  "lower s = map lower_char s"

text \<open>
  Iterating over a text file opened with universal newlines: a line ends at
  \<open>\n\<close>, \<open>\r\n\<close> or \<open>\r\<close>; a last line without terminator counts. The
  lines are returned without their terminators, which the parser strips anyway. The flag
  says that the previous character was \<open>\r\<close>.
\<close>

fun lines_from :: "bool \<Rightarrow> string \<Rightarrow> string \<Rightarrow> string list" where
  "lines_from cr acc [] = (if acc = [] then [] else [acc])"
| "lines_from cr acc (c # cs) =
    (if c = CHR 0x0A then (if cr then lines_from False acc cs else acc # lines_from False [] cs)
     else if c = CHR 0x0D then acc # lines_from True [] cs
     else lines_from False (acc @ [c]) cs)"

definition splitlines :: "string \<Rightarrow> string list" where
  "splitlines s = lines_from False [] s"

subsection \<open>configparser.ConfigParser(inline_comment_prefixes=("#",))\<close>

text \<open>
  The standard library's parser with the settings the program uses: comment prefixes
  \<open>#\<close> and \<open>;\<close>, inline comment prefix \<open>#\<close>, delimiters \<open>=\<close> and \<open>:\<close>,
  strict mode, no valueless options, empty lines allowed in values, default section
  \<open>DEFAULT\<close>, option names lower-cased, basic interpolation.
\<close>

datatype cp_error =
    DuplicateSectionError string
  | DuplicateOptionError string string
  | MissingSectionHeaderError string
  | ParsingError "string list"
  | InterpolationSyntaxError string
  | InterpolationMissingOptionError string
  | InterpolationDepthError string
  | ValueError string

text \<open>
  The part of a line before its comment, and whether there is a comment. An inline
  comment starts at the first \<open>#\<close> that is at the start of the line or follows a
  whitespace character; the flag says that the current position is such a place.
\<close>

fun before_inline_comment :: "bool \<Rightarrow> string \<Rightarrow> string \<times> bool" where
  "before_inline_comment ok [] = ([], False)"
| "before_inline_comment ok (c # cs) =
    (if c = CHR ''#'' \<and> ok then ([], True)
     else (case before_inline_comment (is_space c) cs of (b, found) \<Rightarrow> (c # b, found)))"

definition full_line_comment :: "string \<Rightarrow> bool" where
  "full_line_comment line =
    (case strip line of [] \<Rightarrow> False | c # _ \<Rightarrow> c = CHR ''#'' \<or> c = CHR '';'')"

definition strip_comments :: "string \<Rightarrow> string \<times> bool" where
  "strip_comments line =
    (if full_line_comment line then ([], True) else before_inline_comment True line)"

text \<open>
  \<open>SECTCRE\<close>, matched at the start of the stripped line: an opening bracket, a
  non-empty header, and the last closing bracket of the line.
\<close>

definition section_header :: "string \<Rightarrow> string option" where
  "section_header v =
    (case v of
       [] \<Rightarrow> None
     | c # rest \<Rightarrow>
        if c = CHR ''['' \<and> CHR '']'' \<in> set rest
        then (case rev (tl (dropWhile (\<lambda>x. x \<noteq> CHR '']'') (rev rest))) of
                [] \<Rightarrow> None
              | h # hs \<Rightarrow> Some (h # hs))
        else None)"

text \<open>
  \<open>OPTCRE\<close>: the option name is what precedes the first delimiter, without trailing
  whitespace; the value is the rest, stripped. No delimiter, no match.
\<close>

definition is_delimiter :: "char \<Rightarrow> bool" where
  "is_delimiter c = (c = CHR ''='' \<or> c = CHR '':'')"

definition split_option :: "string \<Rightarrow> (string \<times> string) option" where
  "split_option v =
    (case dropWhile (\<lambda>c. \<not> is_delimiter c) v of
       [] \<Rightarrow> None
     | d # optval \<Rightarrow> Some (rstrip (takeWhile (\<lambda>c. \<not> is_delimiter c) v), strip optval))"

text \<open>
  The state of \<open>_read\<close>: the sections and the defaults (each option with the list of
  its value lines), the current section and option, the indent level, the options added
  so far and the lines that did not parse. The section name \<open>DEFAULT\<close> stands for the
  defaults.
\<close>

type_synonym raw_options = "(string \<times> string list) list"

record read_state =
  sections_of :: "(string \<times> raw_options) list"
  defaults_of :: raw_options
  cursect :: "string option"
  optname :: "string option"
  indent_level :: nat
  elements_added :: "(string \<times> string) list"
  parse_errors :: "string list"

definition initial_read_state :: read_state where
  "initial_read_state =
    \<lparr> sections_of = [], defaults_of = [], cursect = None, optname = None,
      indent_level = 0, elements_added = [], parse_errors = [] \<rparr>"

text \<open>Python's \<open>d[k] = v\<close> on an insertion-ordered dictionary.\<close>

fun assign :: "('k \<times> 'v) list \<Rightarrow> 'k \<Rightarrow> 'v \<Rightarrow> ('k \<times> 'v) list" where
  "assign [] k v = [(k, v)]"
| "assign ((k', v') # kvs) k v = (if k' = k then (k, v) # kvs else (k', v') # assign kvs k v)"

definition DEFAULTSECT :: string where
  "DEFAULTSECT = ''DEFAULT''"

definition current_options :: "read_state \<Rightarrow> string \<Rightarrow> raw_options" where
  "current_options st sect =
    (if sect = DEFAULTSECT then defaults_of st
     else (case map_of (sections_of st) sect of None \<Rightarrow> [] | Some opts \<Rightarrow> opts))"

definition set_current_options :: "read_state \<Rightarrow> string \<Rightarrow> raw_options \<Rightarrow> read_state" where
  "set_current_options st sect opts =
    (if sect = DEFAULTSECT then st \<lparr> defaults_of := opts \<rparr>
     else st \<lparr> sections_of := assign (sections_of st) sect opts \<rparr>)"

text \<open>\<open>cursect[optname].append(value)\<close>, when there is a current section and option.\<close>

definition append_value :: "read_state \<Rightarrow> string \<Rightarrow> read_state" where
  "append_value st v =
    (case (cursect st, optname st) of
       (Some sect, Some opt) \<Rightarrow>
         (case map_of (current_options st sect) opt of
            None \<Rightarrow> st
          | Some vs \<Rightarrow> set_current_options st sect (assign (current_options st sect) opt (vs @ [v])))
     | _ \<Rightarrow> st)"

text \<open>\<open>cursect is not None and optname\<close>: an empty option name is falsy.\<close>

definition in_option :: "read_state \<Rightarrow> bool" where
  "in_option st = (cursect st \<noteq> None \<and> optname st \<noteq> None \<and> optname st \<noteq> Some [])"

text \<open>
  One iteration of the loop of \<open>_read\<close>, for a line that is neither empty nor a
  continuation: a section header, then an option line.
\<close>

definition read_section :: "read_state \<Rightarrow> nat \<Rightarrow> string \<Rightarrow> cp_error + read_state" where
  "read_section st cur_indent_level sectname =
    (if sectname \<in> set (map fst (sections_of st))
     then Inl (DuplicateSectionError sectname)
     else if sectname = DEFAULTSECT
     then Inr (st \<lparr> indent_level := cur_indent_level,
                   cursect := Some sectname, optname := None \<rparr>)
     else Inr (st \<lparr> indent_level := cur_indent_level,
                   sections_of := sections_of st @ [(sectname, [])],
                   cursect := Some sectname, optname := None \<rparr>))"

definition read_option ::
  "read_state \<Rightarrow> nat \<Rightarrow> string \<Rightarrow> string \<Rightarrow> string \<Rightarrow> cp_error + read_state" where
  "read_option st cur_indent_level line sect v =
    (case split_option v of
       None \<Rightarrow>
         Inr (st \<lparr> indent_level := cur_indent_level,
                   parse_errors := parse_errors st @ [line] \<rparr>)
     | Some (name, optval) \<Rightarrow>
         if (sect, lower name) \<in> set (elements_added st)
         then Inl (DuplicateOptionError sect (lower name))
         else Inr (set_current_options
                (st \<lparr> indent_level := cur_indent_level,
                     optname := Some (lower name),
                     elements_added := elements_added st @ [(sect, lower name)],
                     parse_errors := (if name = [] then parse_errors st @ [line]
                                      else parse_errors st) \<rparr>)
                sect (assign (current_options st sect) (lower name) [optval])))"

definition read_line :: "read_state \<Rightarrow> string \<Rightarrow> cp_error + read_state" where
  "read_line st line =
    (let v = strip (fst (strip_comments line));
         commented = snd (strip_comments line);
         cur_indent_level = length (takeWhile is_space line)
     in if v = [] then
          Inr (if \<not> commented \<and> in_option st then append_value st [] else st)
        else if in_option st \<and> indent_level st < cur_indent_level then
          Inr (append_value st v)
        else
          (case section_header v of
             Some sectname \<Rightarrow> read_section st cur_indent_level sectname
           | None \<Rightarrow>
              (case cursect st of
                 None \<Rightarrow> Inl (MissingSectionHeaderError line)
               | Some sect \<Rightarrow> read_option st cur_indent_level line sect v)))"

fun read_lines :: "read_state \<Rightarrow> string list \<Rightarrow> cp_error + read_state" where
  "read_lines st [] = Inr st"
| "read_lines st (l # ls) =
    (case read_line st l of Inl e \<Rightarrow> Inl e | Inr st' \<Rightarrow> read_lines st' ls)"

text \<open>\<open>_join_multiline_values\<close>: \<open>'\n'.join(val).rstrip()\<close>.\<close>

fun join_lines :: "string list \<Rightarrow> string" where
  "join_lines [] = []"
| "join_lines [l] = l"
| "join_lines (l # ls) = l @ CHR 0x0A # join_lines ls"

definition join_multiline_values :: "raw_options \<Rightarrow> (string \<times> string) list" where
  "join_multiline_values opts = map (\<lambda>(k, vs). (k, rstrip (join_lines vs))) opts"

record parser =
  p_sections :: "(string \<times> (string \<times> string) list) list"
  p_defaults :: "(string \<times> string) list"

text \<open>
  \<open>parser.read(path)\<close> on a file that exists, given its text. Lines that did not
  parse are reported together at the end.
\<close>

definition configparser_read :: "string \<Rightarrow> cp_error + parser" where
  "configparser_read text =
    (case read_lines initial_read_state (splitlines text) of
       Inl e \<Rightarrow> Inl e
     | Inr st \<Rightarrow>
        if parse_errors st \<noteq> [] then Inl (ParsingError (parse_errors st))
        else Inr \<lparr> p_sections = map (\<lambda>(s, opts). (s, join_multiline_values opts)) (sections_of st),
                   p_defaults = join_multiline_values (defaults_of st) \<rparr>)"

text \<open>\<open>BasicInterpolation\<close>: \<open>%%\<close> is a percent sign, \<open>%(name)s\<close> the value of
  another option, to a depth of ten; anything else after \<open>%\<close> is an error.\<close>

definition key_match :: "string \<Rightarrow> (string \<times> nat) option" where
  "key_match s =
    (let name = takeWhile (\<lambda>c. c \<noteq> CHR '')'') s
     in if name \<noteq> [] \<and> take 2 (drop (length name) s) = '')s''
        then Some (name, length name + 2) else None)"

fun interpolate_some ::
  "(string \<Rightarrow> cp_error + string) \<Rightarrow> (string \<times> string) list \<Rightarrow> string \<Rightarrow> cp_error + string" where
  "interpolate_some sub d [] = Inr []"
| "interpolate_some sub d [c] =
    (if c = CHR ''%'' then Inl (InterpolationSyntaxError [c]) else Inr [c])"
| "interpolate_some sub d (c # c' # cs) =
    (if c \<noteq> CHR ''%'' then
       (case interpolate_some sub d (c' # cs) of Inl e \<Rightarrow> Inl e | Inr r \<Rightarrow> Inr (c # r))
     else if c' = CHR ''%'' then
       (case interpolate_some sub d cs of Inl e \<Rightarrow> Inl e | Inr r \<Rightarrow> Inr (CHR ''%'' # r))
     else if c' = CHR ''('' then
       (case key_match cs of
          None \<Rightarrow> Inl (InterpolationSyntaxError (c # c' # cs))
        | Some (name, n) \<Rightarrow>
           (case map_of d (lower name) of
              None \<Rightarrow> Inl (InterpolationMissingOptionError (lower name))
            | Some v \<Rightarrow>
               (case (if CHR ''%'' \<in> set v then sub v else Inr v) of
                  Inl e \<Rightarrow> Inl e
                | Inr r \<Rightarrow>
                   (case interpolate_some sub d (drop n cs) of
                      Inl e \<Rightarrow> Inl e
                    | Inr r' \<Rightarrow> Inr (r @ r')))))
     else Inl (InterpolationSyntaxError (c # c' # cs)))"

fun interpolate_depth :: "nat \<Rightarrow> (string \<times> string) list \<Rightarrow> string \<Rightarrow> cp_error + string" where
  "interpolate_depth 0 d s = Inl (InterpolationDepthError s)"
| "interpolate_depth (Suc n) d s = interpolate_some (interpolate_depth n d) d s"

definition before_get :: "(string \<times> string) list \<Rightarrow> string \<Rightarrow> cp_error + string" where
  "before_get d v = interpolate_depth 10 d v"

text \<open>\<open>_unify_values\<close>: the section's options, then the defaults; \<open>None\<close> is
  \<open>NoSectionError\<close>.\<close>

definition unify_values :: "parser \<Rightarrow> string \<Rightarrow> (string \<times> string) list option" where
  "unify_values p section =
    (case map_of (p_sections p) section of
       Some opts \<Rightarrow> Some (opts @ p_defaults p)
     | None \<Rightarrow> if section = DEFAULTSECT then Some (p_defaults p) else None)"

text \<open>\<open>parser.get(section, option, fallback=fb)\<close>.\<close>

definition parser_get :: "parser \<Rightarrow> string \<Rightarrow> string \<Rightarrow> string \<Rightarrow> cp_error + string" where
  "parser_get p section option fb =
    (case unify_values p section of
       None \<Rightarrow> Inr fb
     | Some d \<Rightarrow>
        (case map_of d (lower option) of
           None \<Rightarrow> Inr fb
         | Some v \<Rightarrow> before_get d v))"

definition convert_to_boolean :: "string \<Rightarrow> cp_error + bool" where
  "convert_to_boolean v =
    (if lower v \<in> set [''1'', ''yes'', ''true'', ''on''] then Inr True
     else if lower v \<in> set [''0'', ''no'', ''false'', ''off''] then Inr False
     else Inl (ValueError (''Not a boolean: '' @ v)))"

text \<open>\<open>parser.getboolean(section, option, fallback=fb)\<close>.\<close>

definition parser_getboolean :: "parser \<Rightarrow> string \<Rightarrow> string \<Rightarrow> bool \<Rightarrow> cp_error + bool" where
  "parser_getboolean p section option fb =
    (case unify_values p section of
       None \<Rightarrow> Inr fb
     | Some d \<Rightarrow>
        (case map_of d (lower option) of
           None \<Rightarrow> Inr fb
         | Some v \<Rightarrow> (case before_get d v of Inl e \<Rightarrow> Inl e | Inr s \<Rightarrow> convert_to_boolean s)))"

text \<open>\<open>section in parser\<close> and \<open>option in parser[section]\<close>.\<close>

definition has_section :: "parser \<Rightarrow> string \<Rightarrow> bool" where
  "has_section p section = (section \<in> set (map fst (p_sections p)))"

definition parser_contains :: "parser \<Rightarrow> string \<Rightarrow> bool" where
  "parser_contains p section = (section = DEFAULTSECT \<or> has_section p section)"

definition has_option :: "parser \<Rightarrow> string \<Rightarrow> string \<Rightarrow> bool" where
  "has_option p section option =
    (if section = [] \<or> section = DEFAULTSECT
     then lower option \<in> set (map fst (p_defaults p))
     else (case map_of (p_sections p) section of
             None \<Rightarrow> False
           | Some opts \<Rightarrow>
               lower option \<in> set (map fst opts) \<or> lower option \<in> set (map fst (p_defaults p))))"

subsection \<open>The values that are written\<close>

text \<open>
  \<open>datetime\<close> values and their two renderings, \<open>strftime('%Y-%m-%d %H:%M:%S')\<close>
  and \<open>strftime('%Y-%m-%dT%H:%M:%S')\<close>: the year on four digits, the other fields
  on two.
\<close>

record datetime =
  year :: nat
  month :: nat
  day :: nat
  hour :: nat
  minute :: nat
  second :: nat

definition zfill :: "nat \<Rightarrow> string \<Rightarrow> string" where
  "zfill w s = replicate (w - length s) (CHR ''0'') @ s"

definition strftime_date :: "datetime \<Rightarrow> string" where
  "strftime_date d =
    zfill 4 (str_nat (year d)) @ ''-'' @ zfill 2 (str_nat (month d)) @ ''-''
      @ zfill 2 (str_nat (day d))"

definition strftime_time :: "datetime \<Rightarrow> string" where
  "strftime_time d =
    zfill 2 (str_nat (hour d)) @ '':'' @ zfill 2 (str_nat (minute d)) @ '':''
      @ zfill 2 (str_nat (second d))"

definition strftime_space :: "datetime \<Rightarrow> string" where
  "strftime_space d = strftime_date d @ '' '' @ strftime_time d"

definition strftime_T :: "datetime \<Rightarrow> string" where
  "strftime_T d = strftime_date d @ ''T'' @ strftime_time d"

text \<open>
  A point of interest is a dictionary with the keys \<open>name\<close>, \<open>x\<close>, \<open>y\<close> and
  \<open>z\<close>.
\<close>

record poi =
  pname :: string
  px :: real
  py :: real
  pz :: real

text \<open>
  The session state: the \<open>config\<close> dictionary, whose values are strings and
  booleans, the \<open>roi_validated\<close> flag and the list \<open>poi_list_ch\<close>, which is
  absent until the POI tab creates it.
\<close>

datatype pyval = Str string | Bool bool

fun py_truthy :: "pyval \<Rightarrow> bool" where
  "py_truthy (Str s) = (s \<noteq> [])"
| "py_truthy (Bool b) = b"

type_synonym config = "string \<rightharpoonup> pyval"

record session =
  config :: config
  roi_validated :: bool
  poi_list_ch :: "poi list option"

definition initial_session :: session where
  "initial_session = \<lparr> config = Map.empty, roi_validated = False, poi_list_ch = None \<rparr>"

text \<open>
  The variables of the script that the configuration text is built from. Floats are
  reals here, and their rendering by \<open>str\<close> is a parameter \<open>fs\<close> of the functions
  below; integers are rendered by \<open>str_int\<close>.
\<close>

record params =
  simu_name :: string
  start_dt :: datetime
  end_dt :: datetime
  poi_x :: real
  poi_y :: real
  poi_z :: real
  use_shapefile :: bool
  roi_shapefile :: string
  roi_size :: int
  buffer_size :: int
  coord_sys :: string
  gsd :: real
  gsd_ref :: real
  lus_source :: string
  lus_constant :: int

text \<open>A (partly) integral float prints as its integer digits and \<open>.0\<close>.\<close>

definition integral_float_str :: "real \<Rightarrow> string" where
  "integral_float_str v = str_int \<lfloor>v\<rfloor> @ ''.0''"

subsection \<open>Writing: the saved configuration and the temporary run configuration\<close>

definition line :: "string \<Rightarrow> string" where
  "line s = s @ [CHR 0x0A]"

definition true_false :: "bool \<Rightarrow> string" where
  "true_false b = (if b then ''true'' else ''false'')"

text \<open>\<open>st.session_state.config.get(key, True)\<close>, taken as a condition.\<close>

definition mask_flag :: "config \<Rightarrow> string \<Rightarrow> bool" where
  "mask_flag cfg key = (case cfg key of None \<Rightarrow> True | Some v \<Rightarrow> py_truthy v)"

definition roi_content :: "params \<Rightarrow> string" where
  "roi_content p =
    (if use_shapefile p then line (''ROI_SHAPEFILE = '' @ roi_shapefile p)
     else line (''ROI = '' @ str_int (roi_size p)))"

definition output_content :: "(real \<Rightarrow> string) \<Rightarrow> session \<Rightarrow> params \<Rightarrow> string" where
  "output_content fs st p =
    line (''BUFFERSIZE = '' @ str_int (buffer_size p))
    @ line [] @ line ''[OUTPUT]''
    @ line (''OUT_COORDSYS = '' @ coord_sys p)
    @ line (''GSD = '' @ fs (gsd p))
    @ line (''GSD_ref = '' @ fs (gsd_ref p))
    @ line ''DEM_ADDFMTLIST =''
    @ line ''MESH_FMT = vtu''
    @ line (''MASK_DEM_TO_POLYGON = '' @ true_false (mask_flag (config st) ''mask_dem_to_polygon''))
    @ line (''MASK_LUS_TO_POLYGON = '' @ true_false (mask_flag (config st) ''mask_lus_to_polygon''))
    @ line [] @ line ''[MAPS]''
    @ line ''PLOT_HORIZON = false''"

definition a3d_content :: "params \<Rightarrow> string" where
  "a3d_content p =
    line [] @ line ''[A3D]''
    @ line ''USE_GROUNDEYE = false''
    @ line (''LUS_SOURCE = '' @ lus_source p)
    @ (if lus_source p = ''constant''
       then line (''LUS_PREVAH_CST = '' @ str_int (lus_constant p)) else [])
    @ line ''DO_PVP_3D = false''
    @ line ''PVP_3D_FMT = vtu''
    @ line ''SP_BIN_PATH = snowpack''"

definition poi_line :: "(real \<Rightarrow> string) \<Rightarrow> poi \<Rightarrow> string" where
  "poi_line fs q = pname q @ '' = '' @ fs (px q) @ '','' @ fs (py q) @ '','' @ fs (pz q)"

definition pois_content :: "(real \<Rightarrow> string) \<Rightarrow> session \<Rightarrow> string" where
  "pois_content fs st =
    (case poi_list_ch st of
       None \<Rightarrow> []
     | Some [] \<Rightarrow> []
     | Some (q # qs) \<Rightarrow>
        line [] @ line ''[POIS]'' @ concat (map (\<lambda>r. line (poi_line fs r)) (q # qs)))"

text \<open>
  \<open>config_content\<close> as the Save Config button builds it (lines 1374-1420). \<open>now\<close>
  is the value of \<open>datetime.now()\<close> at that moment.
\<close>

definition config_content ::
  "(real \<Rightarrow> string) \<Rightarrow> datetime \<Rightarrow> session \<Rightarrow> params \<Rightarrow> string" where
  "config_content fs now st p =
    line ''# A3Dshell Configuration''
    @ line (''# Generated: '' @ strftime_space now)
    @ line []
    @ line ''[GENERAL]''
    @ line (''SIMULATION_NAME = '' @ simu_name p)
    @ line (''START_DATE = '' @ strftime_T (start_dt p))
    @ line (''END_DATE = '' @ strftime_T (end_dt p))
    @ line []
    @ line ''[INPUT]''
    @ line (''EAST_epsg2056 = '' @ fs (poi_x p))
    @ line (''NORTH_epsg2056 = '' @ fs (poi_y p))
    @ line (''altLV95 = '' @ fs (poi_z p))
    @ line (''USE_SHP_ROI = '' @ true_false (use_shapefile p))
    @ roi_content p
    @ output_content fs st p
    @ a3d_content p
    @ pois_content fs st"

text \<open>
  \<open>config_content\<close> as the Start Run button builds it (lines 1459-1503): no time
  stamp, and the lines of the first literal are indented by four spaces, as is the ROI
  line that is appended to it.
\<close>

definition temp_config_content :: "(real \<Rightarrow> string) \<Rightarrow> session \<Rightarrow> params \<Rightarrow> string" where
  "temp_config_content fs st p =
    line ''# Temporary A3Dshell Configuration''
    @ line ''    [GENERAL]''
    @ line (''    SIMULATION_NAME = '' @ simu_name p)
    @ line (''    START_DATE = '' @ strftime_T (start_dt p))
    @ line (''    END_DATE = '' @ strftime_T (end_dt p))
    @ line ''    ''
    @ line ''    [INPUT]''
    @ line (''    EAST_epsg2056 = '' @ fs (poi_x p))
    @ line (''    NORTH_epsg2056 = '' @ fs (poi_y p))
    @ line (''    altLV95 = '' @ fs (poi_z p))
    @ line (''    USE_SHP_ROI = '' @ true_false (use_shapefile p))
    @ ''    '' @ roi_content p
    @ output_content fs st p
    @ a3d_content p
    @ pois_content fs st"

subsection \<open>Reading: the selected configuration is loaded into the session\<close>

text \<open>
  Lines 398-427 are a sequence of assignments \<open>config[key] = parser.get(...)\<close>. An
  assignment whose right-hand side raises does not happen, and the script stops there
  with the assignments before it done.
\<close>

type_synonym statement = "config \<Rightarrow> cp_error + config"

definition assign_get :: "parser \<Rightarrow> string \<Rightarrow> string \<Rightarrow> string \<Rightarrow> string \<Rightarrow> statement" where
  "assign_get p key section option fb cfg =
    (case parser_get p section option fb of
       Inl e \<Rightarrow> Inl e
     | Inr v \<Rightarrow> Inr (cfg(key \<mapsto> Str v)))"

definition assign_getboolean :: "parser \<Rightarrow> string \<Rightarrow> string \<Rightarrow> string \<Rightarrow> bool \<Rightarrow> statement" where
  "assign_getboolean p key section option fb cfg =
    (case parser_getboolean p section option fb of
       Inl e \<Rightarrow> Inl e
     | Inr b \<Rightarrow> Inr (cfg(key \<mapsto> Bool b)))"

definition assign_lus_source_legacy :: "parser \<Rightarrow> statement" where
  "assign_lus_source_legacy p cfg =
    (case parser_getboolean p ''A3D'' ''USE_LUS_TLM'' False of
       Inl e \<Rightarrow> Inl e
     | Inr use_tlm \<Rightarrow> Inr (cfg(''lus_source'' \<mapsto> Str (if use_tlm then ''tlm'' else ''constant''))))"

definition assign_const :: "string \<Rightarrow> string \<Rightarrow> statement" where
  "assign_const key v cfg = Inr (cfg(key \<mapsto> Str v))"

definition load_statements :: "parser \<Rightarrow> statement list" where
  "load_statements p =
    (if parser_contains p ''GENERAL'' then
       [assign_get p ''simu_name'' ''GENERAL'' ''SIMULATION_NAME'' [],
        assign_get p ''start_date'' ''GENERAL'' ''START_DATE'' [],
        assign_get p ''end_date'' ''GENERAL'' ''END_DATE'' []]
     else [])
    @ (if parser_contains p ''INPUT'' then
       [assign_get p ''poi_x'' ''INPUT'' ''EAST_epsg2056'' [],
        assign_get p ''poi_y'' ''INPUT'' ''NORTH_epsg2056'' [],
        assign_get p ''poi_z'' ''INPUT'' ''altLV95'' [],
        assign_getboolean p ''use_shp'' ''INPUT'' ''USE_SHP_ROI'' False,
        assign_get p ''roi_size'' ''INPUT'' ''ROI'' ''1000'',
        assign_get p ''buffer_size'' ''INPUT'' ''BUFFERSIZE'' ''50000'',
        assign_get p ''roi_shapefile'' ''INPUT'' ''ROI_SHAPEFILE'' []]
     else [])
    @ (if parser_contains p ''OUTPUT'' then
       [assign_get p ''coord_sys'' ''OUTPUT'' ''OUT_COORDSYS'' ''CH1903+'',
        assign_get p ''gsd'' ''OUTPUT'' ''GSD'' ''10.0'',
        assign_get p ''gsd_ref'' ''OUTPUT'' ''GSD_ref'' ''2.0'']
     else [])
    @ (if parser_contains p ''A3D'' then
       [if has_option p ''A3D'' ''LUS_SOURCE''
        then assign_get p ''lus_source'' ''A3D'' ''LUS_SOURCE'' ''tlm''
        else if has_option p ''A3D'' ''USE_LUS_TLM''
        then assign_lus_source_legacy p
        else assign_const ''lus_source'' ''tlm'',
        assign_get p ''lus_cst'' ''A3D'' ''LUS_PREVAH_CST'' ''11500'']
     else [])"

text \<open>Running statements in order: the configuration reached, and the exception if any.\<close>

fun run_statements :: "statement list \<Rightarrow> config \<Rightarrow> config \<times> cp_error option" where
  "run_statements [] cfg = (cfg, None)"
| "run_statements (s # ss) cfg =
    (case s cfg of Inl e \<Rightarrow> (cfg, Some e) | Inr cfg' \<Rightarrow> run_statements ss cfg')"

definition load_selected_config :: "parser \<Rightarrow> config \<Rightarrow> config \<times> cp_error option" where
  "load_selected_config p cfg = run_statements (load_statements p) cfg"

text \<open>Parsing a stored text and loading it: \<open>parser.read\<close>, then lines 398-427.\<close>

definition deserialize :: "string \<Rightarrow> config \<Rightarrow> config \<times> cp_error option" where
  "deserialize text cfg =
    (case configparser_read text of
       Inl e \<Rightarrow> (cfg, Some e)
     | Inr p \<Rightarrow> load_selected_config p cfg)"

section \<open>Properties of the boundary validators\<close>

lemma rect_lib_fields:
  "Point rect_lib x y = Inr (RPoint x y)"
  "box rect_lib a b c d = Inr (RBox a b c d)"
  "contains rect_lib g h = Inr (rect_contains g h)"
  "intersects rect_lib g h = Inr (rect_intersects g h)"
  by (simp_all add: rect_lib_def)

lemma fallback_boundary_rect:
  "get_swiss_boundary_polygon rect_lib (Response 200 None)
     = Some (RBox 2485000 1075000 2834000 1296000)"
  by code_simp





lemma boundary_polygon_ignores_box:
  "get_swiss_boundary_polygon (lib\<lparr>box := b\<rparr>) f = get_swiss_boundary_polygon lib f"
  by (simp add: get_swiss_boundary_polygon_def split: fetch.split option.split)

lemma falsy_not_truthy: "rsz = None \<or> rsz = Some 0 \<Longrightarrow> \<not> truthy rsz"
  by auto

text \<open>
  Claim C10: when \<open>roi_size\<close> is \<open>None\<close> or \<open>0\<close>, the guard \<open>if roi_size:\<close>
  is false, so the bounding-box test is skipped in the degraded path and in the
  reference-polygon path alike. The result is a function of the center point only, and
  it does not change when the library's \<open>box\<close> operation is replaced by any other:
  \<open>box\<close> is never called.
\<close>

theorem falsy_roi_size_skips_box_check:
  assumes "rsz = None \<or> rsz = Some 0"
  shows "check_swiss_boundaries lib f x y rsz =
      (case get_swiss_boundary_polygon lib f of
         None \<Rightarrow>
          if SWISS_MIN_E \<le> x \<and> x \<le> SWISS_MAX_E \<and> SWISS_MIN_N \<le> y \<and> y \<le> SWISS_MAX_N
          then (True, msg_within_boundaries)
          else (False, msg_point_appears_outside lib x y)
       | Some sb \<Rightarrow>
          (case Point lib x y of
             Inl e \<Rightarrow> (True, msg_could_not_validate)
           | Inr p \<Rightarrow>
              (case contains lib sb p of
                 Inl e \<Rightarrow> (True, msg_could_not_validate)
               | Inr inside \<Rightarrow>
                  if inside then (True, msg_within_switzerland)
                  else (False, msg_point_outside lib x y))))
    \<and> check_swiss_boundaries (lib\<lparr>box := b\<rparr>) f x y rsz
          = check_swiss_boundaries lib f x y rsz"
proof -
  have t: "\<not> truthy rsz" using assms by (rule falsy_not_truthy)
  have 1: "check_swiss_boundaries lib f x y rsz =
      (case get_swiss_boundary_polygon lib f of
         None \<Rightarrow>
          if SWISS_MIN_E \<le> x \<and> x \<le> SWISS_MAX_E \<and> SWISS_MIN_N \<le> y \<and> y \<le> SWISS_MAX_N
          then (True, msg_within_boundaries)
          else (False, msg_point_appears_outside lib x y)
       | Some sb \<Rightarrow>
          (case Point lib x y of
             Inl e \<Rightarrow> (True, msg_could_not_validate)
           | Inr p \<Rightarrow>
              (case contains lib sb p of
                 Inl e \<Rightarrow> (True, msg_could_not_validate)
               | Inr inside \<Rightarrow>
                  if inside then (True, msg_within_switzerland)
                  else (False, msg_point_outside lib x y))))"
    using t unfolding check_swiss_boundaries_def check_swiss_boundaries_try_def
    by (simp split: option.split sum.split)
  have 2: "check_swiss_boundaries (lib\<lparr>box := b\<rparr>) f x y rsz
          = check_swiss_boundaries lib f x y rsz"
    using t unfolding check_swiss_boundaries_def check_swiss_boundaries_try_def
    by (simp add: boundary_polygon_ignores_box msg_point_appears_outside_def msg_point_outside_def
          split: option.split sum.split)
  show ?thesis using 1 2 by blast
qed

theorem falsy_roi_size_skips_box_check_witness:
  "check_swiss_boundaries rect_lib (RequestRaised ''timeout'') 2600000 1200000 (Some 0)
     = (True, msg_within_boundaries)
   \<and> check_swiss_boundaries rect_lib (Response 200 None) 2600000 1200000 None
     = (True, msg_within_switzerland)
   \<and> check_swiss_boundaries (rect_lib\<lparr>box := (\<lambda>a b c d. Inl ''unused'')\<rparr>) (Response 200 None) 2600000 1200000 None
     = check_swiss_boundaries rect_lib (Response 200 None) 2600000 1200000 None"
proof -
  have a: "get_swiss_boundary_polygon rect_lib (RequestRaised ''timeout'') = None" by code_simp
  have b: "get_swiss_boundary_polygon rect_lib (Response 200 None)
      = Some (RBox 2485000 1075000 2834000 1296000)" by code_simp
  have c: "Point rect_lib 2600000 1200000 = Inr (RPoint 2600000 1200000)"
    by (simp add: rect_lib_def)
  have d: "contains rect_lib (RBox 2485000 1075000 2834000 1296000) (RPoint 2600000 1200000) = Inr True"
    by (simp add: rect_lib_def)
  show ?thesis
    using falsy_roi_size_skips_box_check [of "Some 0" rect_lib "RequestRaised ''timeout''" 2600000 1200000]
      falsy_roi_size_skips_box_check [of None rect_lib "Response 200 None" 2600000 1200000 "\<lambda>a b c d. Inl ''unused''"]
    by (simp add: a b c d SWISS_MIN_E_def SWISS_MAX_E_def SWISS_MIN_N_def SWISS_MAX_N_def)
qed

lemma crosses_differs_from_outside: "msg_drawn_crosses \<noteq> msg_drawn_outside"
  by (simp add: msg_drawn_crosses_def msg_drawn_outside_def)

lemma roi_extends_differs_from_point_outside:
  "msg_roi_extends_switzerland \<noteq> msg_point_outside lib x y"
  by (simp add: msg_roi_extends_switzerland_def msg_point_outside_def)

text \<open>
  Claim C5, as the code has it. With the reference polygon available and no internal
  failure: a drawn polygon that is not contained is rejected, with the "crosses Swiss
  border" message when it intersects the reference polygon and the different
  "completely outside" message when it does not. A box is rejected when its center is
  not contained (message "Point ... is outside Switzerland", whatever the box does) or
  when its center is contained and the box is not (message "ROI extends outside
  Switzerland"); these two messages differ.
\<close>

theorem containment_failure_messages:
  assumes "get_swiss_boundary_polygon lib f = Some sb"
  shows "(shapely_shape lib j = Inr g \<and> to_crs lib g = Inr g'
            \<and> contains lib sb g' = Inr False \<and> intersects lib sb g' = Inr crossing
          \<longrightarrow> check_polygon_in_swiss_boundaries lib f j
                = (False, if crossing then msg_drawn_crosses else msg_drawn_outside))
       \<and> msg_drawn_crosses \<noteq> msg_drawn_outside
       \<and> (Point lib x y = Inr p \<and> contains lib sb p = Inr False
          \<longrightarrow> check_swiss_boundaries lib f x y rsz = (False, msg_point_outside lib x y))
       \<and> (Point lib x y = Inr p \<and> contains lib sb p = Inr True \<and> truthy rsz
            \<and> box lib (x - half_of rsz) (y - half_of rsz)
                 (x + half_of rsz) (y + half_of rsz) = Inr b
            \<and> contains lib sb b = Inr False
          \<longrightarrow> check_swiss_boundaries lib f x y rsz = (False, msg_roi_extends_switzerland))
       \<and> msg_roi_extends_switzerland \<noteq> msg_point_outside lib x y"
  using assms crosses_differs_from_outside roi_extends_differs_from_point_outside [of lib x y]
  by (simp add: check_polygon_in_swiss_boundaries_def check_polygon_in_swiss_boundaries_try_def
        check_swiss_boundaries_def check_swiss_boundaries_try_def)

theorem containment_failure_messages_witness:
  "get_swiss_boundary_polygon rect_lib (Response 200 None) = Some (RBox 2485000 1075000 2834000 1296000)
   \<and> check_polygon_in_swiss_boundaries rect_lib (Response 200 None) (RBox 2480000 1100000 2490000 1110000)
       = (False, msg_drawn_crosses)
   \<and> check_polygon_in_swiss_boundaries rect_lib (Response 200 None) (RBox 2400000 1100000 2410000 1110000)
       = (False, msg_drawn_outside)
   \<and> check_swiss_boundaries rect_lib (Response 200 None) 2484000 1100000 (Some 1000)
       = (False, msg_point_outside rect_lib 2484000 1100000)
   \<and> check_swiss_boundaries rect_lib (Response 200 None) 2486000 1100000 (Some 10000)
       = (False, msg_roi_extends_switzerland)"
proof -
  have sb: "get_swiss_boundary_polygon rect_lib (Response 200 None)
      = Some (RBox 2485000 1075000 2834000 1296000)" by code_simp
  have h: "half_of (Some 10000) = 5000" by (simp add: half_of_def)
  show ?thesis
    using sb
      containment_failure_messages [OF sb, of "RBox 2480000 1100000 2490000 1110000"
        "RBox 2480000 1100000 2490000 1110000" "RBox 2480000 1100000 2490000 1110000" True
        2484000 1100000 "RPoint 2484000 1100000" "Some 1000"]
      containment_failure_messages [OF sb, of "RBox 2400000 1100000 2410000 1110000"
        "RBox 2400000 1100000 2410000 1110000" "RBox 2400000 1100000 2410000 1110000" False
        2486000 1100000 "RPoint 2486000 1100000" "Some 10000" "RBox 2481000 1095000 2491000 1105000"]
    by (simp add: rect_lib_def h)
qed

text \<open>
  Claim C5 as stated fails for box input: around the center (2484000, 1100000), which
  lies outside the reference polygon, the box of size 50000 overlaps the polygon and the
  box of size 100 is disjoint from it, and both get the same message.
\<close>

theorem box_overlap_and_exclusion_share_a_message:
  "box rect_lib (2484000 - half_of (Some 50000)) (1100000 - half_of (Some 50000))
       (2484000 + half_of (Some 50000)) (1100000 + half_of (Some 50000))
     = Inr (RBox 2459000 1075000 2509000 1125000)
   \<and> box rect_lib (2484000 - half_of (Some 100)) (1100000 - half_of (Some 100))
       (2484000 + half_of (Some 100)) (1100000 + half_of (Some 100))
     = Inr (RBox 2483950 1099950 2484050 1100050)
   \<and> get_swiss_boundary_polygon rect_lib (Response 200 None)
     = Some (RBox 2485000 1075000 2834000 1296000)
   \<and> intersects rect_lib (RBox 2485000 1075000 2834000 1296000) (RBox 2459000 1075000 2509000 1125000) = Inr True
   \<and> contains rect_lib (RBox 2485000 1075000 2834000 1296000) (RBox 2459000 1075000 2509000 1125000) = Inr False
   \<and> intersects rect_lib (RBox 2485000 1075000 2834000 1296000) (RBox 2483950 1099950 2484050 1100050) = Inr False
   \<and> check_swiss_boundaries rect_lib (Response 200 None) 2484000 1100000 (Some 50000)
     = (False, msg_point_outside rect_lib 2484000 1100000)
   \<and> check_swiss_boundaries rect_lib (Response 200 None) 2484000 1100000 (Some 100)
     = (False, msg_point_outside rect_lib 2484000 1100000)"
  by (simp add: fallback_boundary_rect rect_lib_fields check_swiss_boundaries_def
        check_swiss_boundaries_try_def half_of_def)

end
